theory Spec2Isabelle
  imports Main "HOL-Library.AList" "HOL-Library.Sublist"
begin

section \<open>Text\<close>

text \<open>
  A Python \<^verbatim>\<open>str\<close> is modelled as a \<^typ>\<open>string\<close>; a character beyond ASCII stands as
  the sequence of its UTF-8 bytes. \<^verbatim>\<open>str.lower\<close> and \<^verbatim>\<open>str.strip\<close> are modelled on
  ASCII: bytes beyond ASCII are neither cased nor blank.
\<close>

definition lower_char :: "char \<Rightarrow> char" where
  "lower_char c =
     (case map_of (zip ''ABCDEFGHIJKLMNOPQRSTUVWXYZ'' ''abcdefghijklmnopqrstuvwxyz'') c of
        Some d \<Rightarrow> d
      | None \<Rightarrow> c)"

definition lower :: "string \<Rightarrow> string" where
  "lower s = map lower_char s"

definition isspace :: "char \<Rightarrow> bool" where
  "isspace c \<longleftrightarrow>
     c \<in> set [CHR 0x09, CHR 0x0A, CHR 0x0B, CHR 0x0C, CHR 0x0D,
              CHR 0x1C, CHR 0x1D, CHR 0x1E, CHR 0x1F, CHR 0x20]"

definition strip :: "string \<Rightarrow> string" where
  "strip s = rev (dropWhile isspace (rev (dropWhile isspace s)))"

definition startswith :: "string \<Rightarrow> string \<Rightarrow> bool" where
  "startswith s p \<longleftrightarrow> prefix p s"

text \<open>\<^verbatim>\<open>needle in haystack\<close> on strings.\<close>

definition contains :: "string \<Rightarrow> string \<Rightarrow> bool" where
  "contains needle haystack \<longleftrightarrow> sublist needle haystack"

text \<open>
  \<^verbatim>\<open>s.split(sep)\<close> for a separator that is not empty (Python raises ValueError on the
  empty one; the program only splits on the fence). \<open>acc\<close> holds the current part, reversed.
\<close>

function split_acc :: "string \<Rightarrow> string \<Rightarrow> string \<Rightarrow> string list" where
  "split_acc sep acc [] = [rev acc]"
| "split_acc sep acc (c # cs) =
     (if sep \<noteq> [] \<and> prefix sep (c # cs)
      then rev acc # split_acc sep [] (drop (length sep) (c # cs))
      else split_acc sep (c # acc) cs)"
  by pat_completeness auto
termination
  by (relation "measure (\<lambda>(sep, acc, s). length s)") (auto simp: prefix_def)

definition split :: "string \<Rightarrow> string \<Rightarrow> string list" where
  "split s sep = split_acc sep [] s"

section \<open>Errors\<close>

text \<open>
  The exceptions the program can meet. \<open>ServiceError\<close> is any exception raised by an
  external service call, with its message (\<^verbatim>\<open>str(e)\<close>).
\<close>

datatype py_error =
    AttributeError
  | IndexError
  | OSError
  | ServiceError string

section \<open>JSON values and \<^verbatim>\<open>json.loads\<close>\<close>

text \<open>
  The values \<^verbatim>\<open>json.loads\<close> builds. A float keeps its decimal reading \<open>Dec m e\<close>
  (\<open>m \<times> 10\<^sup>e\<close>); an object keeps its pairs in source order, the last pair of a key being the
  one a \<^verbatim>\<open>dict\<close> retains.
\<close>

datatype pyfloat = Dec int int | NaN | Infinity bool

datatype json =
    JNull
  | JBool bool
  | JInt int
  | JFloat pyfloat
  | JStr string
  | JArr "json list"
  | JObj "(string \<times> json) list"

text \<open>
  Truth value of a Python object. A float is false when it is \<open>0.0\<close>, which a decimal
  is read as when it is zero or at most \<open>2\<^sup>-\<^sup>1\<^sup>0\<^sup>7\<^sup>5\<close> in magnitude.
\<close>

fun truthy :: "json \<Rightarrow> bool" where
  "truthy JNull = False"
| "truthy (JBool b) = b"
| "truthy (JInt i) = (i \<noteq> 0)"
| "truthy (JFloat (Dec m e)) =
     (\<not> (m = 0 \<or> (e < 0 \<and> \<bar>m\<bar> * 2 ^ 1075 \<le> 10 ^ nat (- e))))"
| "truthy (JFloat NaN) = True"
| "truthy (JFloat (Infinity b)) = True"
| "truthy (JStr s) = (s \<noteq> [])"
| "truthy (JArr xs) = (xs \<noteq> [])"
| "truthy (JObj fs) = (fs \<noteq> [])"

subsection \<open>Tokens\<close>

datatype token =
    TLBrace | TRBrace | TLBrack | TRBrack | TColon | TComma
  | TStr string
  | TWord string

text \<open>Content of a string literal while it is read: a plain byte or a \<^verbatim>\<open>\uXXXX\<close> escape.\<close>

datatype piece = Raw char | Esc nat

datatype lexmode =
    LStart
  | LWord string
  | LStr "piece list"
  | LEsc "piece list"
  | LHex "piece list" "nat list"

definition hexval :: "char \<Rightarrow> nat option" where
  "hexval c =
     map_of (zip ''0123456789abcdefABCDEF''
               [0, 1, 2, 3, 4, 5, 6, 7, 8, 9, 10, 11, 12, 13, 14, 15, 10, 11, 12, 13, 14, 15]) c"

definition isdigit :: "char \<Rightarrow> bool" where
  "isdigit c \<longleftrightarrow> c \<in> set ''0123456789''"

definition digit_val :: "char \<Rightarrow> nat" where
  "digit_val c = (case hexval c of Some d \<Rightarrow> d | None \<Rightarrow> 0)"

definition digits_val :: "string \<Rightarrow> nat" where
  "digits_val ds = foldl (\<lambda>a c. 10 * a + digit_val c) 0 ds"

definition wordchar :: "char \<Rightarrow> bool" where
  "wordchar c \<longleftrightarrow>
     c \<in> set ''abcdefghijklmnopqrstuvwxyzABCDEFGHIJKLMNOPQRSTUVWXYZ0123456789+-.''"

definition utf8 :: "nat \<Rightarrow> string" where
  "utf8 n =
     (if n < 0x80 then [char_of n]
      else if n < 0x800 then [char_of (0xC0 + n div 0x40), char_of (0x80 + n mod 0x40)]
      else if n < 0x10000 then
        [char_of (0xE0 + n div 0x1000), char_of (0x80 + n div 0x40 mod 0x40),
         char_of (0x80 + n mod 0x40)]
      else
        [char_of (0xF0 + n div 0x40000), char_of (0x80 + n div 0x1000 mod 0x40),
         char_of (0x80 + n div 0x40 mod 0x40), char_of (0x80 + n mod 0x40)])"

text \<open>A high surrogate escape directly followed by a low one is one code point.\<close>

fun decode :: "piece list \<Rightarrow> string" where
  "decode [] = []"
| "decode (Raw c # ps) = c # decode ps"
| "decode (Esc hi # Esc lo # ps) =
     (if 0xD800 \<le> hi \<and> hi \<le> 0xDBFF \<and> 0xDC00 \<le> lo \<and> lo \<le> 0xDFFF
      then utf8 (0x10000 + (hi - 0xD800) * 0x400 + (lo - 0xDC00)) @ decode ps
      else utf8 hi @ decode (Esc lo # ps))"
| "decode (Esc u # ps) = utf8 u @ decode ps"

definition escapes :: "(char \<times> char) list" where
  "escapes =
     [(CHR 0x22, CHR 0x22), (CHR 0x5C, CHR 0x5C), (CHR ''/'', CHR ''/''),
      (CHR ''b'', CHR 0x08), (CHR ''f'', CHR 0x0C), (CHR ''n'', CHR 0x0A),
      (CHR ''r'', CHR 0x0D), (CHR ''t'', CHR 0x09)]"

definition start_char :: "token list \<Rightarrow> char \<Rightarrow> (lexmode \<times> token list) option" where
  "start_char ts c =
     (if c \<in> set [CHR 0x20, CHR 0x09, CHR 0x0A, CHR 0x0D] then Some (LStart, ts)
      else if c = CHR ''{'' then Some (LStart, TLBrace # ts)
      else if c = CHR ''}'' then Some (LStart, TRBrace # ts)
      else if c = CHR ''['' then Some (LStart, TLBrack # ts)
      else if c = CHR '']'' then Some (LStart, TRBrack # ts)
      else if c = CHR '':'' then Some (LStart, TColon # ts)
      else if c = CHR '','' then Some (LStart, TComma # ts)
      else if c = CHR 0x22 then Some (LStr [], ts)
      else if wordchar c then Some (LWord [c], ts)
      else None)"

fun lex_step :: "lexmode \<times> token list \<Rightarrow> char \<Rightarrow> (lexmode \<times> token list) option" where
  "lex_step (LStart, ts) c = start_char ts c"
| "lex_step (LWord w, ts) c =
     (if wordchar c then Some (LWord (c # w), ts) else start_char (TWord (rev w) # ts) c)"
| "lex_step (LStr ps, ts) c =
     (if c = CHR 0x22 then Some (LStart, TStr (decode (rev ps)) # ts)
      else if c = CHR 0x5C then Some (LEsc ps, ts)
      else if (of_char c :: nat) < 0x20 then None
      else Some (LStr (Raw c # ps), ts))"
| "lex_step (LEsc ps, ts) c =
     (if c = CHR ''u'' then Some (LHex ps [], ts)
      else (case map_of escapes c of
              Some d \<Rightarrow> Some (LStr (Raw d # ps), ts)
            | None \<Rightarrow> None))"
| "lex_step (LHex ps ds, ts) c =
     (case hexval c of
        None \<Rightarrow> None
      | Some d \<Rightarrow>
          if length ds = 3 then Some (LStr (Esc (foldl (\<lambda>a h. 16 * a + h) 0 (ds @ [d])) # ps), ts)
          else Some (LHex ps (ds @ [d]), ts))"

fun lex :: "lexmode \<times> token list \<Rightarrow> string \<Rightarrow> token list option" where
  "lex (LStart, ts) [] = Some (rev ts)"
| "lex (LWord w, ts) [] = Some (rev (TWord (rev w) # ts))"
| "lex (m, ts) [] = None"
| "lex st (c # cs) = (case lex_step st c of None \<Rightarrow> None | Some st' \<Rightarrow> lex st' cs)"

subsection \<open>Literals and numbers\<close>

text \<open>
  The number grammar of \<^verbatim>\<open>json\<close>:
  \<^verbatim>\<open>-?(0|[1-9][0-9]*)(\.[0-9]+)?([eE][-+]?[0-9]+)?\<close>; without fraction and exponent the
  number is an \<^verbatim>\<open>int\<close>, else a \<^verbatim>\<open>float\<close>.
\<close>

definition parse_frac :: "string \<Rightarrow> (string \<times> string) option" where
  "parse_frac r =
     (case r of
        [] \<Rightarrow> Some ([], [])
      | c # cs \<Rightarrow>
          if c = CHR ''.''
          then (if takeWhile isdigit cs = [] then None
                else Some (takeWhile isdigit cs, dropWhile isdigit cs))
          else Some ([], r))"

definition parse_exp :: "string \<Rightarrow> int option option" where
  "parse_exp r =
     (case r of
        [] \<Rightarrow> Some None
      | c # cs \<Rightarrow>
          if c = CHR ''e'' \<or> c = CHR ''E''
          then (let (neg, ds) =
                      (case cs of
                         [] \<Rightarrow> (False, [])
                       | d # ds' \<Rightarrow>
                           if d = CHR ''-'' then (True, ds')
                           else if d = CHR ''+'' then (False, ds')
                           else (False, cs))
                in if ds \<noteq> [] \<and> list_all isdigit ds
                   then Some (Some (if neg then - int (digits_val ds) else int (digits_val ds)))
                   else None)
          else None)"

definition parse_number :: "string \<Rightarrow> json option" where
  "parse_number w =
     (let (neg, r) =
            (case w of
               [] \<Rightarrow> (False, [])
             | c # cs \<Rightarrow> if c = CHR ''-'' then (True, cs) else (False, w));
          ip = takeWhile isdigit r
      in if ip = [] \<or> (1 < length ip \<and> hd ip = CHR ''0'') then None
         else (case parse_frac (dropWhile isdigit r) of
                 None \<Rightarrow> None
               | Some (fp, r2) \<Rightarrow>
                   (case parse_exp r2 of
                      None \<Rightarrow> None
                    | Some ex \<Rightarrow>
                        if fp = [] \<and> ex = None
                        then Some (JInt (if neg then - int (digits_val ip) else int (digits_val ip)))
                        else Some (JFloat (Dec
                               (if neg then - int (digits_val (ip @ fp))
                                else int (digits_val (ip @ fp)))
                               ((case ex of None \<Rightarrow> 0 | Some e \<Rightarrow> e) - int (length fp)))))))"

definition word_value :: "string \<Rightarrow> json option" where
  "word_value w =
     (if w = ''null'' then Some JNull
      else if w = ''true'' then Some (JBool True)
      else if w = ''false'' then Some (JBool False)
      else if w = ''NaN'' then Some (JFloat NaN)
      else if w = ''Infinity'' then Some (JFloat (Infinity False))
      else if w = ''-Infinity'' then Some (JFloat (Infinity True))
      else parse_number w)"

subsection \<open>Values from tokens\<close>

text \<open>
  The open containers, innermost first: an array with its elements so far, an object
  between two pairs, an object whose key awaits its value (all reversed).
\<close>

datatype frame =
    FArr "json list"
  | FObj "(string \<times> json) list"
  | FKey "(string \<times> json) list" string

text \<open>
  What the parser expects next: a value (or the closing bracket right after the opening
  one), a key (or the closing brace right after the opening one), a colon, a comma or a
  closer, or the end of the text.
\<close>

datatype pmode = PVal bool | PKey bool | PColon | PAfter | PDone json

fun deliver :: "json \<Rightarrow> frame list \<Rightarrow> (pmode \<times> frame list) option" where
  "deliver v [] = Some (PDone v, [])"
| "deliver v (FArr es # st) = Some (PAfter, FArr (v # es) # st)"
| "deliver v (FKey fs k # st) = Some (PAfter, FObj ((k, v) # fs) # st)"
| "deliver v (FObj fs # st) = None"

fun parse_step :: "pmode \<times> frame list \<Rightarrow> token \<Rightarrow> (pmode \<times> frame list) option" where
  "parse_step (PVal b, st) TLBrack = Some (PVal True, FArr [] # st)"
| "parse_step (PVal b, st) TLBrace = Some (PKey True, FObj [] # st)"
| "parse_step (PVal b, st) (TStr s) = deliver (JStr s) st"
| "parse_step (PVal b, st) (TWord w) =
     (case word_value w of None \<Rightarrow> None | Some v \<Rightarrow> deliver v st)"
| "parse_step (PVal True, FArr es # st) TRBrack = deliver (JArr (rev es)) st"
| "parse_step (PKey b, FObj fs # st) (TStr k) = Some (PColon, FKey fs k # st)"
| "parse_step (PKey True, FObj fs # st) TRBrace = deliver (JObj (rev fs)) st"
| "parse_step (PColon, st) TColon = Some (PVal False, st)"
| "parse_step (PAfter, FArr es # st) TComma = Some (PVal False, FArr es # st)"
| "parse_step (PAfter, FObj fs # st) TComma = Some (PKey False, FObj fs # st)"
| "parse_step (PAfter, FArr es # st) TRBrack = deliver (JArr (rev es)) st"
| "parse_step (PAfter, FObj fs # st) TRBrace = deliver (JObj (rev fs)) st"
| "parse_step _ _ = None"

fun parse_tokens :: "pmode \<times> frame list \<Rightarrow> token list \<Rightarrow> json option" where
  "parse_tokens (PDone v, st) [] = Some v"
| "parse_tokens (m, st) [] = None"
| "parse_tokens ps (t # ts) =
     (case parse_step ps t of None \<Rightarrow> None | Some ps' \<Rightarrow> parse_tokens ps' ts)"

text \<open>\<^verbatim>\<open>json.loads\<close>; \<open>None\<close> is JSONDecodeError.\<close>

definition json_loads :: "string \<Rightarrow> json option" where
  "json_loads s =
     (case lex (LStart, []) s of
        None \<Rightarrow> None
      | Some ts \<Rightarrow> parse_tokens (PVal False, []) ts)"

section \<open>Classification\<close>

record ClassificationResult =
  primary_bucket :: string
  secondary_bucket :: json
  confidence :: json
  reasoning :: json

definition FENCE :: string where
  "FENCE = [CHR 0x60, CHR 0x60, CHR 0x60]"

text \<open>Lines 445 to 448: the text between the first two fences, without a leading \<^verbatim>\<open>json\<close>.\<close>

definition unfence :: "string \<Rightarrow> py_error + string" where
  "unfence response_text =
     (if startswith response_text FENCE
      then (case split response_text FENCE of
              p0 # p1 # ps \<Rightarrow> Inr (if startswith p1 ''json'' then drop 4 p1 else p1)
            | _ \<Rightarrow> Inl IndexError)
      else Inr response_text)"

text \<open>\<^verbatim>\<open>result.get(key, default)\<close> on the pairs of an object.\<close>

definition dict_get :: "(string \<times> json) list \<Rightarrow> string \<Rightarrow> json \<Rightarrow> json" where
  "dict_get items key dflt =
     (case map_of (rev items) key of Some v \<Rightarrow> v | None \<Rightarrow> dflt)"

text \<open>\<^verbatim>\<open>bucket_mapping.get(key, "")\<close>.\<close>

definition mapping_get :: "(string \<times> string) list \<Rightarrow> string \<Rightarrow> string" where
  "mapping_get bucket_mapping key =
     (case map_of bucket_mapping key of Some v \<Rightarrow> v | None \<Rightarrow> [])"

text \<open>Lines 465 to 469: the first bucket name that equals the primary bucket up to case.\<close>

fun validate_primary :: "string list \<Rightarrow> string \<Rightarrow> string" where
  "validate_primary [] primary = primary"
| "validate_primary (name # names) primary =
     (if lower name = lower primary then name else validate_primary names primary)"

text \<open>Lines 472 to 477.\<close>

definition reconcile ::
  "(string \<times> string) list \<Rightarrow> string \<Rightarrow> json \<Rightarrow> json \<Rightarrow> py_error + json" where
  "reconcile bucket_mapping primary secondary conf =
     (if truthy secondary \<and> conf = JStr ''low''
      then (case secondary of
              JStr s \<Rightarrow>
                (let primary_owner = mapping_get bucket_mapping (lower primary);
                     secondary_owner = mapping_get bucket_mapping (lower s)
                 in if primary_owner \<noteq> [] \<and> secondary_owner \<noteq> []
                       \<and> primary_owner = secondary_owner
                    then Inr (JStr ''high'')
                    else Inr conf)
            | _ \<Rightarrow> Inl AttributeError)
      else Inr conf)"

text \<open>
  Lines 459 to 484, on the parsed value. \<^verbatim>\<open>result.get\<close> raises AttributeError on a value
  that is no object, and \<^verbatim>\<open>primary.lower()\<close> on a primary bucket that is no string.
\<close>

definition interpret_result ::
  "json \<Rightarrow> string list \<Rightarrow> (string \<times> string) list \<Rightarrow> py_error + ClassificationResult" where
  "interpret_result result bucket_names bucket_mapping =
     (case result of
        JObj items \<Rightarrow>
          (let primary = dict_get items ''primary_bucket'' (JStr ''UX'');
               secondary = dict_get items ''secondary_bucket'' JNull;
               conf = dict_get items ''confidence'' (JStr ''low'');
               reason = dict_get items ''reasoning'' (JStr '''')
           in case primary of
                JStr p \<Rightarrow>
                  (let primary' = validate_primary bucket_names p
                   in case reconcile bucket_mapping primary' secondary conf of
                        Inl e \<Rightarrow> Inl e
                      | Inr conf' \<Rightarrow>
                          Inr \<lparr>primary_bucket = primary', secondary_bucket = secondary,
                               confidence = conf', reasoning = reason\<rparr>)
              | _ \<Rightarrow> Inl AttributeError)
      | _ \<Rightarrow> Inl AttributeError)"

text \<open>
  \<open>classify_issue\<close> from the text of the model's reply (\<^verbatim>\<open>message.content[0].text\<close>) on:
  lines 440 to 484. The request itself is a call of the external service, see
  \<open>process_issue\<close>.
\<close>

definition classify_issue ::
  "string \<Rightarrow> string list \<Rightarrow> (string \<times> string) list \<Rightarrow> py_error + ClassificationResult" where
  "classify_issue raw bucket_names bucket_mapping =
     (case unfence (strip raw) of
        Inl e \<Rightarrow> Inl e
      | Inr response_text \<Rightarrow>
          (case json_loads response_text of
             None \<Rightarrow>
               Inr \<lparr>primary_bucket = response_text, secondary_bucket = JNull,
                    confidence = JStr ''low'',
                    reasoning = JStr ''Failed to parse AI response''\<rparr>
           | Some result \<Rightarrow> interpret_result result bucket_names bucket_mapping))"

section \<open>Topic-to-owner mapping\<close>






text \<open>The two name tables, with the bytes the source file holds.\<close>

definition OWNER_NAME_MAP :: "(string \<times> string) list" where
  "OWNER_NAME_MAP =
     [(''Vladimir Krska'',
       ''Vladim'' @ [CHR 0xC3, CHR 0x83, CHR 0xC2, CHR 0xAD] @ ''r Kri''
         @ [CHR 0xC3, CHR 0x85, CHR 0xC2, CHR 0xA1] @ ''ka''),
      (''Zuzana Bednarova'',
       ''Zuzana Bedn'' @ [CHR 0xC3, CHR 0x83, CHR 0xC2, CHR 0xA1]
         @ [CHR 0xC3, CHR 0x85, CHR 0xE2, CHR 0x84, CHR 0xA2] @ ''ov''
         @ [CHR 0xC3, CHR 0x83, CHR 0xC2, CHR 0xA1]),
      (''Jiri Zavora'',
       ''Ji'' @ [CHR 0xC3, CHR 0x85, CHR 0xE2, CHR 0x84, CHR 0xA2]
         @ [CHR 0xC3, CHR 0x83, CHR 0xC2, CHR 0xAD] @ '' Z''
         @ [CHR 0xC3, CHR 0x83, CHR 0xC2, CHR 0xA1] @ ''vora'')]"

definition FEATURE_OWNER_OVERRIDES :: "(string \<times> string) list" where
  "FEATURE_OWNER_OVERRIDES = [(''native datatypes'', ''Zuzana Bednarova'')]"

definition NEEDS_REVIEW_LABEL :: string where
  "NEEDS_REVIEW_LABEL = ''needs-review''"

definition normalize_owner_name :: "string \<Rightarrow> string" where
  "normalize_owner_name name =
     (case map_of OWNER_NAME_MAP name of Some linear_name \<Rightarrow> linear_name | None \<Rightarrow> name)"

section \<open>Processing the issues\<close>

record user =
  user_id :: string
  user_name :: string

record issue =
  issue_id :: string
  issue_key :: string
  title :: string
  description :: "string option"
  assignee :: "user option"
  labels :: "string list"

text \<open>An entry of \<open>results\<close>: a dictionary whose keys depend on the action.\<close>

record report =
  r_identifier :: string
  r_title :: string
  r_bucket :: "string option"
  r_owner :: "string option"
  r_confidence :: "json option"
  r_action :: string
  r_reason :: "string option"

text \<open>
  The calls of the external services, in the order they are made. A label lookup is logged
  with what it returned (\<open>Inl\<close> the message of the exception it raised).
\<close>

datatype call =
    Classify string
  | GetOrCreateLabel string string "string + string"
  | AssignIssue string string "string list option"
  | AddComment string string

text \<open>
  The external services, each on the state of its own side (\<open>'c\<close> the classification
  service, \<open>'t\<close> the tracker): a call returns a value or raises (\<open>Inl\<close> the message,
  \<^verbatim>\<open>str(e)\<close>), and leaves a new state. \<open>messages_create\<close> is the request built from the issue
  and the bucket descriptions, answered by the text of the reply. \<open>py_repr\<close> is the text
  an f-string gives a value that is no string.
\<close>

record ('c, 't) env =
  messages_create :: "'c \<Rightarrow> issue \<Rightarrow> string \<Rightarrow> (string + string) \<times> 'c"
  get_or_create_label :: "'t \<Rightarrow> string \<Rightarrow> string \<Rightarrow> (string + string) \<times> 't"
  assign_issue :: "'t \<Rightarrow> string \<Rightarrow> string \<Rightarrow> string list option \<Rightarrow> (string + unit) \<times> 't"
  add_comment :: "'t \<Rightarrow> string \<Rightarrow> string \<Rightarrow> (string + unit) \<times> 't"
  py_repr :: "json \<Rightarrow> string"

record ('c, 't) run_state =
  results :: "report list"
  needs_review_label_id :: "string option"
  trace :: "call list"
  classifier :: 'c
  tracker :: 't

definition py_str :: "(json \<Rightarrow> string) \<Rightarrow> json \<Rightarrow> string" where
  "py_str repr v = (case v of JStr s \<Rightarrow> s | _ \<Rightarrow> repr v)"

text \<open>\<^verbatim>\<open>sep.join(parts)\<close>.\<close>

fun join :: "string \<Rightarrow> string list \<Rightarrow> string" where
  "join sep [] = []"
| "join sep [p] = p"
| "join sep (p # q # ps) = p @ sep @ join sep (q # ps)"

text \<open>Lines 507 to 513.\<close>

fun add_normalized ::
  "(string \<times> string) list \<Rightarrow> user \<Rightarrow> (string \<rightharpoonup> user) \<Rightarrow> (string \<rightharpoonup> user)" where
  "add_normalized [] member member_lookup = member_lookup"
| "add_normalized ((csv_name, linear_name) # rest) member member_lookup =
     add_normalized rest member
       (if user_name member = linear_name then member_lookup(lower csv_name \<mapsto> member)
        else member_lookup)"

fun build_member_lookup :: "user list \<Rightarrow> (string \<rightharpoonup> user) \<Rightarrow> (string \<rightharpoonup> user)" where
  "build_member_lookup [] member_lookup = member_lookup"
| "build_member_lookup (member # team_members) member_lookup =
     build_member_lookup team_members
       (add_normalized OWNER_NAME_MAP member (member_lookup(lower (user_name member) \<mapsto> member)))"

text \<open>Lines 552 to 557: the owner of the first feature found in the lower-cased title.\<close>

fun feature_override :: "(string \<times> string) list \<Rightarrow> string \<Rightarrow> string option" where
  "feature_override [] title_lower = None"
| "feature_override ((feature, override_owner) # rest) title_lower =
     (if contains feature title_lower then Some override_owner
      else feature_override rest title_lower)"

text \<open>Lines 550 to 561; \<open>None\<close> and the empty name are the two owners \<^verbatim>\<open>not\<close> holds of.\<close>

definition resolve_owner_name ::
  "string \<Rightarrow> string \<Rightarrow> (string \<times> string) list \<Rightarrow> string option" where
  "resolve_owner_name issue_title bucket bucket_mapping =
     (let owner_name = feature_override FEATURE_OWNER_OVERRIDES (lower issue_title)
      in if owner_name = None \<or> owner_name = Some [] then map_of bucket_mapping (lower bucket)
         else owner_name)"

text \<open>Lines 577 and 578.\<close>

definition find_member :: "(string \<rightharpoonup> user) \<Rightarrow> string \<Rightarrow> user option" where
  "find_member member_lookup owner_name =
     (case member_lookup (lower owner_name) of
        Some member \<Rightarrow> Some member
      | None \<Rightarrow> member_lookup (lower (normalize_owner_name owner_name)))"

text \<open>Lines 598 to 608, on the texts the f-strings give the fields.\<close>

definition comment_body ::
  "string \<Rightarrow> string \<Rightarrow> string \<Rightarrow> string option \<Rightarrow> string \<Rightarrow> string" where
  "comment_body bucket name conf secondary reason =
     join [CHR 0x0A]
       ([''**Auto-triage classification**'',
         [],
         ''- **Bucket:** '' @ bucket,
         ''- **Assigned to:** '' @ name,
         ''- **Confidence:** '' @ conf]
        @ (case secondary of
             Some s \<Rightarrow> [''- **Alternative bucket:** '' @ s]
           | None \<Rightarrow> [])
        @ [''- **Reasoning:** '' @ reason])"

definition audit_comment :: "(json \<Rightarrow> string) \<Rightarrow> ClassificationResult \<Rightarrow> user \<Rightarrow> string" where
  "audit_comment repr classification member =
     comment_body (primary_bucket classification) (user_name member)
       (py_str repr (confidence classification))
       (if truthy (secondary_bucket classification)
        then Some (py_str repr (secondary_bucket classification)) else None)
       (py_str repr (reasoning classification))"

definition error_report :: "issue \<Rightarrow> string \<Rightarrow> string option \<Rightarrow> string \<Rightarrow> report" where
  "error_report issue bucket owner reason =
     \<lparr>r_identifier = issue_key issue, r_title = title issue, r_bucket = Some bucket,
      r_owner = owner, r_confidence = None, r_action = ''error'', r_reason = Some reason\<rparr>"

definition assign_report :: "issue \<Rightarrow> string \<Rightarrow> user \<Rightarrow> json \<Rightarrow> string \<Rightarrow> report" where
  "assign_report issue bucket member conf action =
     \<lparr>r_identifier = issue_key issue, r_title = title issue, r_bucket = Some bucket,
      r_owner = Some (user_name member), r_confidence = Some conf, r_action = action,
      r_reason = None\<rparr>"

definition add_result :: "report \<Rightarrow> ('c, 't) run_state \<Rightarrow> ('c, 't) run_state" where
  "add_result r st = st\<lparr>results := results st @ [r]\<rparr>"

definition log_call :: "call \<Rightarrow> ('c, 't) run_state \<Rightarrow> ('c, 't) run_state" where
  "log_call c st = st\<lparr>trace := trace st @ [c]\<rparr>"

text \<open>
  Lines 629 to 633: the label of a low-confidence assignment, looked up when none is
  remembered yet. \<open>Inl\<close> is the exception of the lookup, caught at line 651.
\<close>

definition label_step ::
  "('c, 't) env \<Rightarrow> string \<Rightarrow> bool \<Rightarrow> ('c, 't) run_state
     \<Rightarrow> (string + string list option) \<times> ('c, 't) run_state" where
  "label_step E team_id add_needs_review st =
     (if add_needs_review
      then (case needs_review_label_id st of
              None \<Rightarrow>
                (case get_or_create_label E (tracker st) team_id NEEDS_REVIEW_LABEL of
                   (Inl e, t') \<Rightarrow>
                     (Inl e, log_call (GetOrCreateLabel team_id NEEDS_REVIEW_LABEL (Inl e))
                               (st\<lparr>tracker := t'\<rparr>))
                 | (Inr label_id, t') \<Rightarrow>
                     (Inr (Some [label_id]),
                      log_call (GetOrCreateLabel team_id NEEDS_REVIEW_LABEL (Inr label_id))
                        (st\<lparr>tracker := t', needs_review_label_id := Some label_id\<rparr>)))
            | Some label_id \<Rightarrow> (Inr (Some [label_id]), st))
      else (Inr None, st))"

text \<open>Lines 626 to 660: the assignment, its comment and the entry of the item.\<close>

definition execute_assignment ::
  "('c, 't) env \<Rightarrow> string \<Rightarrow> issue \<Rightarrow> ClassificationResult \<Rightarrow> user \<Rightarrow> string
     \<Rightarrow> ('c, 't) run_state \<Rightarrow> ('c, 't) run_state" where
  "execute_assignment E team_id issue classification member body st =
     (let bucket = primary_bucket classification;
          failed = (\<lambda>e. error_report issue bucket (Some (user_name member)) e)
      in case label_step E team_id (confidence classification = JStr ''low'') st of
           (Inl e, st1) \<Rightarrow> add_result (failed e) st1
         | (Inr label_ids, st1) \<Rightarrow>
             (case assign_issue E (tracker st1) (issue_id issue) (user_id member) label_ids of
                (Inl e, t2) \<Rightarrow>
                  add_result (failed e)
                    (log_call (AssignIssue (issue_id issue) (user_id member) label_ids)
                       (st1\<lparr>tracker := t2\<rparr>))
              | (Inr u, t2) \<Rightarrow>
                  (let st2 = log_call (AssignIssue (issue_id issue) (user_id member) label_ids)
                               (st1\<lparr>tracker := t2\<rparr>)
                   in case add_comment E (tracker st2) (issue_id issue) body of
                        (Inl e, t3) \<Rightarrow>
                          add_result (failed e)
                            (log_call (AddComment (issue_id issue) body) (st2\<lparr>tracker := t3\<rparr>))
                      | (Inr u', t3) \<Rightarrow>
                          add_result
                            (assign_report issue bucket member (confidence classification)
                               ''assigned'')
                            (log_call (AddComment (issue_id issue) body)
                               (st2\<lparr>tracker := t3\<rparr>)))))"

text \<open>Lines 543 to 660: the route of an unassigned item, once it is classified.\<close>

definition route_issue ::
  "('c, 't) env \<Rightarrow> (string \<times> string) list \<Rightarrow> (string \<rightharpoonup> user) \<Rightarrow> string \<Rightarrow> bool
     \<Rightarrow> issue \<Rightarrow> ClassificationResult \<Rightarrow> ('c, 't) run_state \<Rightarrow> ('c, 't) run_state" where
  "route_issue E bucket_mapping member_lookup team_id dry_run issue classification st =
     (let bucket = primary_bucket classification;
          no_owner = add_result
            (error_report issue bucket None
               (''No owner found for bucket '' @ [CHR 0x27] @ bucket @ [CHR 0x27]))
            st
      in case resolve_owner_name (title issue) bucket bucket_mapping of
           None \<Rightarrow> no_owner
         | Some owner_name \<Rightarrow>
             if owner_name = [] then no_owner
             else (case find_member member_lookup owner_name of
                     None \<Rightarrow>
                       add_result
                         (error_report issue bucket (Some owner_name)
                            (''Owner '' @ [CHR 0x27] @ owner_name @ [CHR 0x27]
                               @ '' not found in Linear team''))
                         st
                   | Some member \<Rightarrow>
                       if dry_run
                       then add_result
                              (assign_report issue bucket member (confidence classification)
                                 ''would_assign'')
                              st
                       else execute_assignment E team_id issue classification member
                              (audit_comment (py_repr E) classification member) st))"

text \<open>
  One turn of the loop of \<open>process_issues\<close>, lines 518 to 660. An exception of the
  classification request or of \<open>classify_issue\<close> is not caught: it ends the run, and
  is returned beside the state reached.
\<close>

definition process_issue ::
  "('c, 't) env \<Rightarrow> (string \<times> string) list \<Rightarrow> string \<Rightarrow> string list \<Rightarrow> (string \<rightharpoonup> user)
     \<Rightarrow> string \<Rightarrow> bool \<Rightarrow> ('c, 't) run_state \<Rightarrow> issue
     \<Rightarrow> ('c, 't) run_state \<times> py_error option" where
  "process_issue E bucket_mapping bucket_descriptions bucket_names member_lookup team_id dry_run
     st issue =
     (case assignee issue of
        Some current_assignee \<Rightarrow>
          (add_result
             \<lparr>r_identifier = issue_key issue, r_title = title issue, r_bucket = None,
              r_owner = None, r_confidence = None, r_action = ''skipped'',
              r_reason = Some (''Already assigned to '' @ user_name current_assignee)\<rparr>
             st,
           None)
      | None \<Rightarrow>
          (case messages_create E (classifier st) issue bucket_descriptions of
             (Inl e, c') \<Rightarrow>
               (log_call (Classify (issue_key issue)) (st\<lparr>classifier := c'\<rparr>),
                Some (ServiceError e))
           | (Inr raw, c') \<Rightarrow>
               (let st1 = log_call (Classify (issue_key issue)) (st\<lparr>classifier := c'\<rparr>)
                in case classify_issue raw bucket_names bucket_mapping of
                     Inl e \<Rightarrow> (st1, Some e)
                   | Inr classification \<Rightarrow>
                       (route_issue E bucket_mapping member_lookup team_id dry_run issue
                          classification st1,
                        None))))"

fun process_loop ::
  "('c, 't) env \<Rightarrow> (string \<times> string) list \<Rightarrow> string \<Rightarrow> string list \<Rightarrow> (string \<rightharpoonup> user)
     \<Rightarrow> string \<Rightarrow> bool \<Rightarrow> ('c, 't) run_state \<Rightarrow> issue list
     \<Rightarrow> ('c, 't) run_state \<times> py_error option" where
  "process_loop E bucket_mapping bucket_descriptions bucket_names member_lookup team_id dry_run
     st [] = (st, None)"
| "process_loop E bucket_mapping bucket_descriptions bucket_names member_lookup team_id dry_run
     st (issue # issues) =
     (case process_issue E bucket_mapping bucket_descriptions bucket_names member_lookup team_id
             dry_run st issue of
        (st', Some e) \<Rightarrow> (st', Some e)
      | (st', None) \<Rightarrow>
          process_loop E bucket_mapping bucket_descriptions bucket_names member_lookup team_id
            dry_run st' issues)"

text \<open>
  \<open>process_issues\<close>, from the states \<open>c0\<close> and \<open>t0\<close> the two services are found in. The
  bucket names are the keys of the mapping; Python leaves the order of
  \<^verbatim>\<open>list(set(...))\<close> open, the model takes the keys in the order of the mapping. What is
  printed is left out.
\<close>

definition process_issues ::
  "('c, 't) env \<Rightarrow> issue list \<Rightarrow> (string \<times> string) list \<Rightarrow> string \<Rightarrow> user list \<Rightarrow> string
     \<Rightarrow> bool \<Rightarrow> 'c \<Rightarrow> 't \<Rightarrow> ('c, 't) run_state \<times> py_error option" where
  "process_issues E issues bucket_mapping bucket_descriptions team_members team_id dry_run c0 t0 =
     process_loop E bucket_mapping bucket_descriptions (remdups (map fst bucket_mapping))
       (build_member_lookup team_members Map.empty) team_id dry_run
       \<lparr>results = [], needs_review_label_id = None, trace = [], classifier = c0, tracker = t0\<rparr>
       issues"

section \<open>An example environment\<close>

text \<open>
  Services to run the program on: the classification service answers an issue with the
  text of its description (and raises when it has none), the label lookup fails as many
  times as the state of the tracker says and then returns a label, the two mutations
  succeed.
\<close>

definition example_env :: "(nat, nat) env" where
  "example_env =
     \<lparr>messages_create =
        (\<lambda>c issue descriptions.
           (case description issue of None \<Rightarrow> Inl ''no reply'' | Some reply \<Rightarrow> Inr reply, Suc c)),
      get_or_create_label =
        (\<lambda>t team_id name. if t = 0 then (Inr ''label-1'', t) else (Inl ''timeout'', t - 1)),
      assign_issue = (\<lambda>t i m label_ids. (Inr (), t)),
      add_comment = (\<lambda>t i body. (Inr (), t)),
      py_repr = (\<lambda>v. ''<object>'')\<rparr>"

definition example_state :: "nat \<Rightarrow> (nat, nat) run_state" where
  "example_state failures =
     \<lparr>results = [], needs_review_label_id = None, trace = [], classifier = 0,
      tracker = failures\<rparr>"

definition example_issue :: "string \<Rightarrow> string \<Rightarrow> string option \<Rightarrow> user option \<Rightarrow> issue" where
  "example_issue key issue_title reply owner =
     \<lparr>issue_id = ''id-'' @ key, issue_key = key, title = issue_title, description = reply,
      assignee = owner, labels = []\<rparr>"

text \<open>A reply of the model with its four fields, as JSON text.\<close>

definition example_reply :: "string \<Rightarrow> string \<Rightarrow> string \<Rightarrow> string \<Rightarrow> string" where
  "example_reply primary secondary conf reason =
     ''{\"primary_bucket\": \"'' @ primary @ ''\", \"secondary_bucket\": \"'' @ secondary
       @ ''\", \"confidence\": \"'' @ conf @ ''\", \"reasoning\": \"'' @ reason @ ''\"}''"

definition example_mapping :: "(string \<times> string) list" where
  "example_mapping = [(''billing'', ''Owner C''), (''pricing'', ''Owner D'')]"

definition example_members :: "user list" where
  "example_members =
     [\<lparr>user_id = ''u1'', user_name = ''Owner C''\<rparr>, \<lparr>user_id = ''u2'', user_name = ''Owner D''\<rparr>]"

text \<open>
  Three unassigned items, two classified with low confidence and one with high, and the
  run of the program on them, in a dry run or not, with a label lookup that fails the
  given number of times first.
\<close>

definition example_issues :: "issue list" where
  "example_issues =
     [example_issue ''PROF-1'' ''Invoice'' (Some (example_reply ''Billing'' [] ''low'' ''a'')) None,
      example_issue ''PROF-2'' ''Prices'' (Some (example_reply ''Pricing'' [] ''low'' ''b'')) None,
      example_issue ''PROF-3'' ''Refund'' (Some (example_reply ''Billing'' [] ''high'' ''c'')) None]"

definition example_run :: "bool \<Rightarrow> nat \<Rightarrow> (nat, nat) run_state \<times> py_error option" where
  "example_run dry_run failures =
     process_issues example_env example_issues example_mapping [] example_members ''team''
       dry_run 0 failures"

section \<open>Reading a trace\<close>




fun is_classify :: "call \<Rightarrow> bool" where
  "is_classify (Classify k) = True"
| "is_classify c = False"

definition mirrors :: "report \<Rightarrow> report \<Rightarrow> bool" where
  "mirrors executed dry \<longleftrightarrow>
     (r_action executed = ''assigned'' \<longrightarrow> dry = executed\<lparr>r_action := ''would_assign''\<rparr>)
     \<and> (r_action dry \<noteq> ''would_assign'' \<longrightarrow> dry = executed)
     \<and> (r_action dry = ''would_assign'' \<longrightarrow>
          (r_action executed = ''assigned'' \<or> r_action executed = ''error'')
          \<and> r_identifier dry = r_identifier executed \<and> r_title dry = r_title executed
          \<and> r_bucket dry = r_bucket executed \<and> r_owner dry = r_owner executed)"


section \<open>Properties\<close>

subsection \<open>The fence never raises\<close>



subsection \<open>Replies that do not parse\<close>




subsection \<open>The confidence of a result\<close>

text \<open>
  C4 fails on the code: the confidence of the reply is passed on as it is, so a reply whose
  confidence is \<^verbatim>\<open>medium\<close> gives a result whose confidence is neither \<^verbatim>\<open>high\<close> nor
  \<^verbatim>\<open>low\<close>, the two values the field is documented to hold.
\<close>

theorem confidence_outside_enum:
  "classify_issue ''{\"primary_bucket\": \"UX\", \"confidence\": \"medium\"}'' [] [] =
     Inr \<lparr>primary_bucket = ''UX'', secondary_bucket = JNull, confidence = JStr ''medium'',
          reasoning = JStr []\<rparr>
   \<and> JStr ''medium'' \<noteq> JStr ''high'' \<and> JStr ''medium'' \<noteq> JStr ''low''"
  by code_simp

subsection \<open>Items that have an owner\<close>

text \<open>
  C6. An item whose assignee is set only adds its entry to the results: action
  \<^verbatim>\<open>skipped\<close>, the reason naming the assignee. The trace of calls, the states of the two
  services and the remembered label stay as they were, in a dry run or not, and the run
  goes on.
\<close>

theorem assigned_issue_skipped:
  "assignee issue = Some current_assignee \<Longrightarrow>
   process_issue E bucket_mapping bucket_descriptions bucket_names member_lookup team_id dry_run
     st issue =
     (st\<lparr>results := results st @
          [\<lparr>r_identifier = issue_key issue, r_title = title issue, r_bucket = None,
            r_owner = None, r_confidence = None, r_action = ''skipped'',
            r_reason = Some (''Already assigned to '' @ user_name current_assignee)\<rparr>]\<rparr>,
      None)"
  by (simp add: process_issue_def add_result_def)

theorem assigned_issue_skipped_witness:
  "assignee (example_issue ''PROF-1'' ''Slow export'' (Some ''UX'')
       (Some \<lparr>user_id = ''u7'', user_name = ''Ann''\<rparr>)) =
     Some \<lparr>user_id = ''u7'', user_name = ''Ann''\<rparr>
   \<and> process_issue example_env [(''ux'', ''Ann'')] [] [''ux''] Map.empty ''team'' False
       (example_state 0)
       (example_issue ''PROF-1'' ''Slow export'' (Some ''UX'')
          (Some \<lparr>user_id = ''u7'', user_name = ''Ann''\<rparr>)) =
     (\<lparr>results =
          [\<lparr>r_identifier = ''PROF-1'', r_title = ''Slow export'', r_bucket = None,
            r_owner = None, r_confidence = None, r_action = ''skipped'',
            r_reason = Some ''Already assigned to Ann''\<rparr>],
       needs_review_label_id = None, trace = [], classifier = 0, tracker = 0\<rparr>,
      None)"
proof -
  have a: "assignee (example_issue ''PROF-1'' ''Slow export'' (Some ''UX'')
       (Some \<lparr>user_id = ''u7'', user_name = ''Ann''\<rparr>)) =
     Some \<lparr>user_id = ''u7'', user_name = ''Ann''\<rparr>"
    by (simp add: example_issue_def)
  show ?thesis
    using a assigned_issue_skipped [OF a, of example_env "[(''ux'', ''Ann'')]" "[]" "[''ux'']"
        Map.empty "''team''" False "example_state 0"]
    by (simp add: example_issue_def example_state_def)
qed

subsection \<open>Lower case\<close>





subsection \<open>Loading the mapping\<close>








subsection \<open>Reconciling the confidence\<close>




subsection \<open>Validating the primary bucket\<close>




subsection \<open>Feature overrides\<close>

text \<open>
  C5. When the title of an item contains a text that is \<^verbatim>\<open>native datatypes\<close> up to
  case, the owner of the item is the owner the override table gives that keyword, whatever
  bucket the item was classified into and whatever the mapping says of that bucket (the
  confidence plays no part in \<open>resolve_owner_name\<close>).
\<close>

theorem override_owner_wins:
  assumes "contains u issue_title" and "lower u = ''native datatypes''"
  shows "resolve_owner_name issue_title bucket bucket_mapping = Some ''Zuzana Bednarova''"
proof -
  have "sublist (lower u) (lower issue_title)"
    using assms(1) unfolding contains_def lower_def by (rule map_mono_sublist)
  then have "contains ''native datatypes'' (lower issue_title)"
    using assms(2) by (simp add: contains_def)
  then show ?thesis
    by (simp add: resolve_owner_name_def FEATURE_OWNER_OVERRIDES_def)
qed

theorem override_owner_wins_witness:
  "contains ''Native Datatypes'' ''Add Native Datatypes support''
   \<and> lower ''Native Datatypes'' = ''native datatypes''
   \<and> map_of [(''storage'', ''Owner A'')] (lower ''Storage'') = Some ''Owner A''
   \<and> resolve_owner_name ''Add Native Datatypes support'' ''Storage'' [(''storage'', ''Owner A'')] =
       Some ''Zuzana Bednarova''"
proof -
  have h1: "contains ''Native Datatypes'' ''Add Native Datatypes support''" by code_simp
  have h2: "lower ''Native Datatypes'' = ''native datatypes''" by code_simp
  have h3: "map_of [(''storage'', ''Owner A'')] (lower ''Storage'') = Some ''Owner A''"
    by code_simp
  from override_owner_wins [OF h1 h2, of "''Storage''" "[(''storage'', ''Owner A'')]"] h1 h2 h3
  show ?thesis by - (intro conjI; assumption)
qed

subsection \<open>The audit comment\<close>

lemma line_split:
  "a @ c # x = b @ c # y \<Longrightarrow> c \<notin> set a \<Longrightarrow> c \<notin> set b \<Longrightarrow> a = b \<and> x = y"
proof (induction a arbitrary: b)
  case Nil
  then show ?case by (cases b) auto
next
  case (Cons h a)
  then show ?case by (cases b) auto
qed

text \<open>
  C8, as the code has it. The audit comment is the heading, an empty line, and one labelled
  line each for the bucket, the name of the member, the confidence, the secondary bucket
  when there is one, and the reasoning, in that order (\<open>comment_body\<close>). When the
  bucket, the name, the confidence and the secondary bucket hold no line break, the
  comment determines all five fields: two comments that are equal were built from equal
  fields, so a reader can recover each of them.
\<close>

theorem audit_text_recoverable:
  assumes eq: "comment_body bucket name conf secondary reason =
               comment_body bucket' name' conf' secondary' reason'"
    and nl: "CHR 0x0A \<notin> set bucket" "CHR 0x0A \<notin> set name" "CHR 0x0A \<notin> set conf"
      "\<forall>s. secondary = Some s \<longrightarrow> CHR 0x0A \<notin> set s"
    and nl': "CHR 0x0A \<notin> set bucket'" "CHR 0x0A \<notin> set name'" "CHR 0x0A \<notin> set conf'"
      "\<forall>s. secondary' = Some s \<longrightarrow> CHR 0x0A \<notin> set s"
  shows "bucket = bucket' \<and> name = name' \<and> conf = conf' \<and> secondary = secondary'
         \<and> reason = reason'"
proof -
  let ?tail = "\<lambda>s r. (case s of
                         Some x \<Rightarrow> ''- **Alternative bucket:** '' @ x @ CHR 0x0A # ''- **Reasoning:** '' @ r
                       | None \<Rightarrow> ''- **Reasoning:** '' @ r)"
  let ?l3 = "\<lambda>c s r. c @ CHR 0x0A # ?tail s r"
  let ?l2 = "\<lambda>n c s r. n @ CHR 0x0A # ''- **Confidence:** '' @ ?l3 c s r"
  let ?l1 = "\<lambda>b n c s r. b @ CHR 0x0A # ''- **Assigned to:** '' @ ?l2 n c s r"
  have shape: "comment_body b n c s r =
      ''**Auto-triage classification**'' @ [CHR 0x0A, CHR 0x0A] @ ''- **Bucket:** '' @ ?l1 b n c s r"
    for b n c s r
    by (simp add: comment_body_def split: option.split)
  from eq have "?l1 bucket name conf secondary reason = ?l1 bucket' name' conf' secondary' reason'"
    unfolding shape by (simp only: same_append_eq)
  from line_split [OF this nl(1) nl'(1)]
  have b: "bucket = bucket'"
    and "?l2 name conf secondary reason = ?l2 name' conf' secondary' reason'"
    by (simp_all only: same_append_eq)
  from line_split [OF this(2) nl(2) nl'(2)]
  have n: "name = name'" and "?l3 conf secondary reason = ?l3 conf' secondary' reason'"
    by (simp_all only: same_append_eq)
  from line_split [OF this(2) nl(3) nl'(3)]
  have c: "conf = conf'" and t: "?tail secondary reason = ?tail secondary' reason'"
    by simp_all
  have "secondary = secondary' \<and> reason = reason'"
  proof (cases secondary)
    case None
    show ?thesis
    proof (cases secondary')
      case None
      with \<open>secondary = None\<close> t show ?thesis by simp
    next
      case (Some s')
      with None t show ?thesis by simp
    qed
  next
    case (Some s)
    show ?thesis
    proof (cases secondary')
      case None
      with Some t show ?thesis by simp
    next
      case (Some s')
      with \<open>secondary = Some s\<close> t
      have "s @ CHR 0x0A # ''- **Reasoning:** '' @ reason =
            s' @ CHR 0x0A # ''- **Reasoning:** '' @ reason'" by simp
      from line_split [OF this] nl(4) nl'(4) Some \<open>secondary = Some s\<close>
      show ?thesis by simp
    qed
  qed
  with b n c show ?thesis by simp
qed

theorem audit_text_recoverable_witness:
  "CHR 0x0A \<notin> set ''billing'' \<and> CHR 0x0A \<notin> set ''Owner C'' \<and> CHR 0x0A \<notin> set ''high''
   \<and> CHR 0x0A \<notin> set ''Pricing''
   \<and> comment_body ''billing'' ''Owner C'' ''high'' (Some ''Pricing'') ''invoices'' =
       ''**Auto-triage classification**'' @ [CHR 0x0A, CHR 0x0A]
         @ ''- **Bucket:** billing'' @ [CHR 0x0A]
         @ ''- **Assigned to:** Owner C'' @ [CHR 0x0A]
         @ ''- **Confidence:** high'' @ [CHR 0x0A]
         @ ''- **Alternative bucket:** Pricing'' @ [CHR 0x0A]
         @ ''- **Reasoning:** invoices''
   \<and> (''billing'' = ''billing'' \<and> ''Owner C'' = ''Owner C'' \<and> ''high'' = ''high''
        \<and> Some ''Pricing'' = Some ''Pricing'' \<and> ''invoices'' = ''invoices'')"
proof -
  have n1: "CHR 0x0A \<notin> set ''billing''" by simp
  have n2: "CHR 0x0A \<notin> set ''Owner C''" by simp
  have n3: "CHR 0x0A \<notin> set ''high''" by simp
  have n4: "\<forall>s. Some ''Pricing'' = Some s \<longrightarrow> CHR 0x0A \<notin> set s" by simp
  have n5: "CHR 0x0A \<notin> set ''Pricing''" by simp
  have t: "comment_body ''billing'' ''Owner C'' ''high'' (Some ''Pricing'') ''invoices'' =
       ''**Auto-triage classification**'' @ [CHR 0x0A, CHR 0x0A]
         @ ''- **Bucket:** billing'' @ [CHR 0x0A]
         @ ''- **Assigned to:** Owner C'' @ [CHR 0x0A]
         @ ''- **Confidence:** high'' @ [CHR 0x0A]
         @ ''- **Alternative bucket:** Pricing'' @ [CHR 0x0A]
         @ ''- **Reasoning:** invoices''"
    by code_simp
  from audit_text_recoverable [OF refl n1 n2 n3 n4 n1 n2 n3 n4, of "''invoices''"] n1 n2 n3 n5 t
  show ?thesis by simp
qed

text \<open>
  Without that condition the comment does not determine its fields. Two replies that
  differ in their secondary bucket and in their reasoning, one of them with a line break
  in the secondary bucket, the other in the reasoning, are both assigned, with the same
  comment.
\<close>

theorem audit_text_ambiguous_counterexample:
  "classify_issue
       (example_reply ''Billing'' (''Pricing'' @ [CHR 0x5C] @ ''n- **Reasoning:** invoices'')
          ''high'' ''or prices'')
       [''billing'', ''pricing''] example_mapping =
     Inr \<lparr>primary_bucket = ''billing'',
          secondary_bucket = JStr (''Pricing'' @ [CHR 0x0A] @ ''- **Reasoning:** invoices''),
          confidence = JStr ''high'', reasoning = JStr ''or prices''\<rparr>
   \<and> classify_issue
       (example_reply ''Billing'' ''Pricing'' ''high''
          (''invoices'' @ [CHR 0x5C] @ ''n- **Reasoning:** or prices''))
       [''billing'', ''pricing''] example_mapping =
     Inr \<lparr>primary_bucket = ''billing'', secondary_bucket = JStr ''Pricing'',
          confidence = JStr ''high'',
          reasoning = JStr (''invoices'' @ [CHR 0x0A] @ ''- **Reasoning:** or prices'')\<rparr>
   \<and> map r_action (results (fst (process_issues example_env
         [example_issue ''PROF-1'' ''Invoice''
            (Some (example_reply ''Billing''
                     (''Pricing'' @ [CHR 0x5C] @ ''n- **Reasoning:** invoices'') ''high''
                     ''or prices'')) None]
         example_mapping [] example_members ''team'' False 0 0))) = [''assigned'']
   \<and> trace (fst (process_issues example_env
         [example_issue ''PROF-1'' ''Invoice''
            (Some (example_reply ''Billing''
                     (''Pricing'' @ [CHR 0x5C] @ ''n- **Reasoning:** invoices'') ''high''
                     ''or prices'')) None]
         example_mapping [] example_members ''team'' False 0 0)) =
       trace (fst (process_issues example_env
         [example_issue ''PROF-1'' ''Invoice''
            (Some (example_reply ''Billing'' ''Pricing'' ''high''
                     (''invoices'' @ [CHR 0x5C] @ ''n- **Reasoning:** or prices''))) None]
         example_mapping [] example_members ''team'' False 0 0))
   \<and> last (trace (fst (process_issues example_env
         [example_issue ''PROF-1'' ''Invoice''
            (Some (example_reply ''Billing'' ''Pricing'' ''high''
                     (''invoices'' @ [CHR 0x5C] @ ''n- **Reasoning:** or prices''))) None]
         example_mapping [] example_members ''team'' False 0 0))) =
       AddComment ''id-PROF-1''
         (''**Auto-triage classification**'' @ [CHR 0x0A, CHR 0x0A]
            @ ''- **Bucket:** billing'' @ [CHR 0x0A]
            @ ''- **Assigned to:** Owner C'' @ [CHR 0x0A]
            @ ''- **Confidence:** high'' @ [CHR 0x0A]
            @ ''- **Alternative bucket:** Pricing'' @ [CHR 0x0A]
            @ ''- **Reasoning:** invoices'' @ [CHR 0x0A]
            @ ''- **Reasoning:** or prices'')
   \<and> ''or prices'' \<noteq> ''invoices'' @ [CHR 0x0A] @ ''- **Reasoning:** or prices''"
  by code_simp

subsection \<open>The needs-review label\<close>













subsection \<open>Dry runs\<close>

lemma mirrors_same:
  "r_action r \<noteq> ''would_assign'' \<Longrightarrow> r_action r \<noteq> ''assigned'' \<Longrightarrow> mirrors r r"
  by (simp add: mirrors_def)

lemma mirrors_error:
  "mirrors (error_report issue bucket (Some (user_name member)) e)
     (assign_report issue bucket member conf ''would_assign'')"
  by (simp add: mirrors_def error_report_def assign_report_def)

lemma mirrors_assigned:
  "mirrors (assign_report issue bucket member conf ''assigned'')
     (assign_report issue bucket member conf ''would_assign'')"
  by (simp add: mirrors_def assign_report_def)

lemma label_step_frame:
  assumes "label_step E team_id b st = (r, st1)"
  shows "classifier st1 = classifier st \<and> results st1 = results st
         \<and> filter is_classify (trace st1) = filter is_classify (trace st)"
  using assms
  by (auto simp: label_step_def log_call_def split: if_splits option.splits prod.splits sum.splits)

lemma execute_assignment_mirrors:
  fixes E :: "('c, 't) env" and team_id issue cl member body and st :: "('c, 't) run_state"
  defines "st' \<equiv> execute_assignment E team_id issue cl member body st"
  shows "classifier st' = classifier st
         \<and> filter is_classify (trace st') = filter is_classify (trace st)
         \<and> (\<exists>r. results st' = results st @ [r]
                \<and> mirrors r (assign_report issue (primary_bucket cl) member (confidence cl)
                               ''would_assign''))"
proof -
  obtain r st1 where l: "label_step E team_id (confidence cl = JStr ''low'') st = (r, st1)"
    by (cases "label_step E team_id (confidence cl = JStr ''low'') st")
  note f = label_step_frame [OF l]
  show ?thesis
  proof (cases r)
    case (Inl e)
    with l f show ?thesis
      by (simp add: st'_def execute_assignment_def add_result_def mirrors_error)
  next
    case (Inr label_ids)
    obtain ra t2 where a: "assign_issue E (tracker st1) (issue_id issue) (user_id member) label_ids
        = (ra, t2)"
      by (cases "assign_issue E (tracker st1) (issue_id issue) (user_id member) label_ids")
    show ?thesis
    proof (cases ra)
      case (Inl e)
      with l f Inr a show ?thesis
        by (simp add: st'_def execute_assignment_def add_result_def log_call_def mirrors_error)
    next
      case ok: (Inr u)
      obtain rc t3 where c: "add_comment E t2 (issue_id issue) body = (rc, t3)"
        by (cases "add_comment E t2 (issue_id issue) body")
      show ?thesis
      proof (cases rc)
        case (Inl e)
        with l f Inr a ok c show ?thesis
          by (simp add: st'_def execute_assignment_def add_result_def log_call_def Let_def
                mirrors_error)
      next
        case (Inr u')
        with l f \<open>r = Inr label_ids\<close> a ok c show ?thesis
          by (simp add: st'_def execute_assignment_def add_result_def log_call_def Let_def
                mirrors_assigned)
      qed
    qed
  qed
qed

lemma route_issue_mirrors:
  fixes E :: "('c, 't) env" and bm ml team_id issue cl and sx sd :: "('c, 't) run_state"
  assumes "classifier sd = classifier sx" and "list_all2 mirrors (results sx) (results sd)"
    and "trace sd = filter is_classify (trace sx)"
  defines "sx' \<equiv> route_issue E bm ml team_id False issue cl sx"
    and "sd' \<equiv> route_issue E bm ml team_id True issue cl sd"
  shows "classifier sd' = classifier sx' \<and> list_all2 mirrors (results sx') (results sd')
         \<and> trace sd' = filter is_classify (trace sx')"
proof -
  have err: "mirrors (error_report issue b owner reason) (error_report issue b owner reason)"
    for b owner reason
    by (rule mirrors_same) (simp_all add: error_report_def)
  show ?thesis
  proof (cases "resolve_owner_name (title issue) (primary_bucket cl) bm")
    case None
    with assms(1-3) err show ?thesis
      by (simp add: sx'_def sd'_def route_issue_def add_result_def Let_def list_all2_appendI)
  next
    case (Some owner_name)
    show ?thesis
    proof (cases "owner_name = []")
      case True
      with Some assms(1-3) err show ?thesis
        by (simp add: sx'_def sd'_def route_issue_def add_result_def Let_def list_all2_appendI)
    next
      case False
      show ?thesis
      proof (cases "find_member ml owner_name")
        case None
        with Some False assms(1-3) err show ?thesis
          by (simp add: sx'_def sd'_def route_issue_def add_result_def Let_def list_all2_appendI)
      next
        case member: (Some member)
        let ?body = "audit_comment (py_repr E) cl member"
        from execute_assignment_mirrors [of E team_id issue cl member ?body sx]
        obtain r where
          x: "classifier (execute_assignment E team_id issue cl member ?body sx) = classifier sx"
            "filter is_classify (trace (execute_assignment E team_id issue cl member ?body sx)) =
               filter is_classify (trace sx)"
            "results (execute_assignment E team_id issue cl member ?body sx) = results sx @ [r]"
            "mirrors r (assign_report issue (primary_bucket cl) member (confidence cl)
                          ''would_assign'')"
          by blast
        have sx': "sx' = execute_assignment E team_id issue cl member ?body sx"
          using Some False member by (simp add: sx'_def route_issue_def Let_def)
        have sd': "sd' = add_result (assign_report issue (primary_bucket cl) member
                                        (confidence cl) ''would_assign'') sd"
          using Some False member by (simp add: sd'_def route_issue_def Let_def)
        show ?thesis
          unfolding sx' sd' using x assms(1-3)
          by (simp add: add_result_def list_all2_appendI)
      qed
    qed
  qed
qed

lemma process_issue_mirrors:
  fixes sx sd :: "('c, 't) run_state"
  assumes "classifier sd = classifier sx" and "list_all2 mirrors (results sx) (results sd)"
    and "trace sd = filter is_classify (trace sx)"
    and "process_issue E bm bd bn ml team_id False sx issue = (sx', ex)"
    and "process_issue E bm bd bn ml team_id True sd issue = (sd', ed)"
  shows "ed = ex \<and> classifier sd' = classifier sx'
         \<and> list_all2 mirrors (results sx') (results sd')
         \<and> trace sd' = filter is_classify (trace sx')"
proof (cases "assignee issue")
  case (Some a)
  have "mirrors r r" if "r_action r = ''skipped''" for r
    using that by (intro mirrors_same) simp_all
  with Some assms show ?thesis
    by (auto simp: process_issue_def add_result_def list_all2_appendI)
next
  case None
  obtain res c' where m: "messages_create E (classifier sx) issue bd = (res, c')"
    by (cases "messages_create E (classifier sx) issue bd")
  let ?sx1 = "log_call (Classify (issue_key issue)) (sx\<lparr>classifier := c'\<rparr>)"
  let ?sd1 = "log_call (Classify (issue_key issue)) (sd\<lparr>classifier := c'\<rparr>)"
  have r1: "classifier ?sd1 = classifier ?sx1" "list_all2 mirrors (results ?sx1) (results ?sd1)"
    "trace ?sd1 = filter is_classify (trace ?sx1)"
    using assms(1-3) by (simp_all add: log_call_def)
  show ?thesis
  proof (cases res)
    case (Inl err)
    with None m assms(1,4,5) r1 show ?thesis by (auto simp: process_issue_def)
  next
    case (Inr raw)
    show ?thesis
    proof (cases "classify_issue raw bn bm")
      case (Inl err)
      with None m Inr assms(1,4,5) r1 show ?thesis by (auto simp: process_issue_def Let_def)
    next
      case (Inr cl)
      from route_issue_mirrors [OF r1, of E bm ml team_id issue cl]
        None m \<open>res = Inr raw\<close> Inr assms(1,4,5)
      show ?thesis by (auto simp: process_issue_def Let_def)
    qed
  qed
qed

lemma process_loop_mirrors:
  fixes sx sd :: "('c, 't) run_state"
  shows "classifier sd = classifier sx \<Longrightarrow> list_all2 mirrors (results sx) (results sd) \<Longrightarrow>
    trace sd = filter is_classify (trace sx) \<Longrightarrow>
    process_loop E bm bd bn ml team_id False sx issues = (sx', ex) \<Longrightarrow>
    process_loop E bm bd bn ml team_id True sd issues = (sd', ed) \<Longrightarrow>
    ed = ex \<and> classifier sd' = classifier sx' \<and> list_all2 mirrors (results sx') (results sd')
      \<and> trace sd' = filter is_classify (trace sx')"
proof (induction issues arbitrary: sx sd)
  case Nil
  then show ?case by simp
next
  case (Cons issue issues)
  obtain sx1 ex1 where px: "process_issue E bm bd bn ml team_id False sx issue = (sx1, ex1)"
    by (cases "process_issue E bm bd bn ml team_id False sx issue")
  obtain sd1 ed1 where pd: "process_issue E bm bd bn ml team_id True sd issue = (sd1, ed1)"
    by (cases "process_issue E bm bd bn ml team_id True sd issue")
  from process_issue_mirrors [OF Cons.prems(1-3) px pd]
  have r: "ed1 = ex1" "classifier sd1 = classifier sx1"
    "list_all2 mirrors (results sx1) (results sd1)" "trace sd1 = filter is_classify (trace sx1)"
    by simp_all
  show ?case
  proof (cases ex1)
    case None
    with px pd r(1) Cons.prems(4,5)
    have "process_loop E bm bd bn ml team_id False sx1 issues = (sx', ex)"
      and "process_loop E bm bd bn ml team_id True sd1 issues = (sd', ed)"
      by simp_all
    from Cons.IH [OF r(2-4) this] show ?thesis .
  next
    case (Some err)
    with px pd r Cons.prems(4,5) show ?thesis by auto
  qed
qed

lemma dry_step_frame:
  assumes "process_issue E bm bd bn ml team_id True st issue = (st', e)"
  shows "tracker st' = tracker st \<and> needs_review_label_id st' = needs_review_label_id st"
  using assms
  by (auto simp: process_issue_def route_issue_def add_result_def log_call_def Let_def
           split: option.splits prod.splits sum.splits if_splits)

lemma dry_loop_frame:
  "process_loop E bm bd bn ml team_id True st issues = (st', e) \<Longrightarrow>
   tracker st' = tracker st \<and> needs_review_label_id st' = needs_review_label_id st"
proof (induction issues arbitrary: st)
  case Nil
  then show ?case by simp
next
  case (Cons issue issues)
  obtain st1 e1 where p: "process_issue E bm bd bn ml team_id True st issue = (st1, e1)"
    by (cases "process_issue E bm bd bn ml team_id True st issue")
  note f = dry_step_frame [OF p]
  show ?case
  proof (cases e1)
    case None
    with p Cons.prems have "process_loop E bm bd bn ml team_id True st1 issues = (st', e)"
      by simp
    from Cons.IH [OF this] f show ?thesis by simp
  next
    case (Some err)
    with p Cons.prems f show ?thesis by auto
  qed
qed

text \<open>
  C10. A dry run leaves the tracker as it was and remembers no label; its only calls are
  the classification requests, the same ones as in the run that executes, from the same
  start. The two runs end the same way, and their results mirror each other entry by
  entry: an item the executing run assigns has in the dry run the same entry with the
  action \<^verbatim>\<open>would_assign\<close>, so the same bucket, owner and confidence; an entry of the dry
  run with another action is the entry of the executing run; and an entry
  \<^verbatim>\<open>would_assign\<close> stands for an assignment, or for one that failed in the tracker.
\<close>

theorem dry_run_mutates_nothing:
  assumes "process_issues E issues bucket_mapping bucket_descriptions team_members team_id
             True c0 t0 = (dry, e)"
    and "process_issues E issues bucket_mapping bucket_descriptions team_members team_id
             False c0 t0 = (executed, e')"
  shows "tracker dry = t0 \<and> needs_review_label_id dry = None
         \<and> (\<forall>c \<in> set (trace dry). is_classify c)
         \<and> trace dry = filter is_classify (trace executed)
         \<and> e = e'
         \<and> list_all2 mirrors (results executed) (results dry)"
proof -
  let ?s0 = "\<lparr>results = [], needs_review_label_id = None, trace = [], classifier = c0,
              tracker = t0\<rparr>"
  have f: "tracker dry = t0 \<and> needs_review_label_id dry = None"
    using dry_loop_frame [OF assms(1) [unfolded process_issues_def]] by simp
  have "classifier ?s0 = classifier ?s0" "list_all2 mirrors (results ?s0) (results ?s0)"
    "trace ?s0 = filter is_classify (trace ?s0)"
    by simp_all
  from process_loop_mirrors [OF this assms(2) [unfolded process_issues_def]
      assms(1) [unfolded process_issues_def]]
  have m: "e = e'" "list_all2 mirrors (results executed) (results dry)"
    "trace dry = filter is_classify (trace executed)"
    by simp_all
  have "\<forall>c \<in> set (trace dry). is_classify c" unfolding m(3) by simp
  with f m show ?thesis by simp
qed

theorem dry_run_mutates_nothing_witness:
  "tracker (fst (example_run True 1)) = 1
   \<and> needs_review_label_id (fst (example_run True 1)) = None
   \<and> trace (fst (example_run True 1)) =
       [Classify ''PROF-1'', Classify ''PROF-2'', Classify ''PROF-3'']
   \<and> trace (fst (example_run True 1)) = filter is_classify (trace (fst (example_run False 1)))
   \<and> snd (example_run True 1) = snd (example_run False 1)
   \<and> list_all2 mirrors (results (fst (example_run False 1))) (results (fst (example_run True 1)))
   \<and> map r_action (results (fst (example_run True 1))) =
       [''would_assign'', ''would_assign'', ''would_assign'']
   \<and> map r_action (results (fst (example_run False 1))) = [''error'', ''assigned'', ''assigned'']"
proof -
  let ?dry = "fst (example_run True 1)" and ?ex = "fst (example_run False 1)"
  have h1: "process_issues example_env example_issues example_mapping [] example_members ''team''
              True 0 1 = (?dry, snd (example_run True 1))"
    by (simp add: example_run_def)
  have h2: "process_issues example_env example_issues example_mapping [] example_members ''team''
              False 0 1 = (?ex, snd (example_run False 1))"
    by (simp add: example_run_def)
  have t: "trace ?dry = [Classify ''PROF-1'', Classify ''PROF-2'', Classify ''PROF-3'']"
    by code_simp
  have d: "map r_action (results ?dry) = [''would_assign'', ''would_assign'', ''would_assign'']"
    by code_simp
  have x: "map r_action (results ?ex) = [''error'', ''assigned'', ''assigned'']"
    by code_simp
  note r = dry_run_mutates_nothing [OF h1 h2]
  from r have a: "tracker ?dry = 1" by (elim conjE)
  from r have b: "needs_review_label_id ?dry = None" by (elim conjE)
  from r have c: "trace ?dry = filter is_classify (trace ?ex)" by (elim conjE)
  from r have e: "snd (example_run True 1) = snd (example_run False 1)" by (elim conjE)
  from r have m: "list_all2 mirrors (results ?ex) (results ?dry)" by (elim conjE)
  from a b t c e m d x show ?thesis by - (intro conjI; assumption)
qed

end
